theory Spec2Isabelle
  imports Main "HOL-Library.AList" "HOL-Library.Sublist"
begin

section \<open>JavaScript values\<close>

text \<open>
  A JavaScript string is a \<open>string\<close>; a value that may be \<open>undefined\<close> or \<open>null\<close> is an
  \<open>option\<close>. An object used as a dictionary is an association list: \<open>map_of\<close> reads a
  key and \<open>AList.update\<close> writes it, keeping the insertion order as JavaScript does.
  Properties inherited from \<open>Object.prototype\<close> are not modelled.
\<close>

datatype error = TypeError | IOError

type_synonym 'v dict = "(string \<times> 'v) list"

text \<open>Truthiness of a \<open>string | undefined\<close>: the empty string and \<open>undefined\<close> are falsy.\<close>

fun truthy :: "string option \<Rightarrow> bool" where
  "truthy None = False"
| "truthy (Some s) = (s \<noteq> [])"

text \<open>\<open>String.prototype.startsWith\<close>.\<close>

definition startsWith :: "string \<Rightarrow> string \<Rightarrow> bool" where
  "startsWith s p = (take (length p) s = p)"

section \<open>Changelogs\<close>

text \<open>
  Modelled from the spec: the module \<open>./Markdown\<close> (the lexer \<open>lexify\<close> and the type
  \<open>Token\<close>) is not among the sources. The spec says that headings carry a depth and a
  text, and that list items nested under a category carry the entry text. A token is a
  heading, the start or the end of a list item, a text token, or any other token, which
  may or may not have a \<open>text\<close> property.
\<close>

datatype Token =
    Heading nat string
  | ListItemStart
  | ListItemEnd
  | TextToken string
  | OtherToken "string option"

fun tokenText :: "Token \<Rightarrow> string option" where
  "tokenText (Heading d t) = Some t"
| "tokenText (TextToken t) = Some t"
| "tokenText (OtherToken t) = t"
| "tokenText ListItemStart = None"
| "tokenText ListItemEnd = None"

datatype ChangeType = BREAKING_CHANGES | NEW_FEATURES | BUG_FIXES

text \<open>The labels of the enum \<open>ChangeType\<close>; each starts with an emoji, given here in UTF-8.\<close>

fun changeTypeLabel :: "ChangeType \<Rightarrow> string" where
  "changeTypeLabel BREAKING_CHANGES =
     [CHR 0xF0, CHR 0x9F, CHR 0x9B, CHR 0xA0] @ '' Breaking changes''"
| "changeTypeLabel NEW_FEATURES =
     [CHR 0xF0, CHR 0x9F, CHR 0x8E, CHR 0x89] @ '' New features''"
| "changeTypeLabel BUG_FIXES =
     [CHR 0xF0, CHR 0x9F, CHR 0x90, CHR 0x9B] @ '' Bug fixes''"

definition VERSION_HEADING_DEPTH :: nat where
  "VERSION_HEADING_DEPTH = 2"

definition CHANGE_TYPE_HEADING_DEPTH :: nat where
  "CHANGE_TYPE_HEADING_DEPTH = 3"

record ChangelogChanges =
  totalCount :: nat
  versions :: "(string list) dict dict"

text \<open>\<open>if (!versions[currentVersion]) versions[currentVersion] = {}\<close>\<close>

definition ensureVersion :: "string \<Rightarrow> ChangelogChanges \<Rightarrow> ChangelogChanges" where
  "ensureVersion v ch =
     (case map_of (versions ch) v of
        None \<Rightarrow> ch\<lparr>versions := AList.update v [] (versions ch)\<rparr>
      | Some cats \<Rightarrow> ch)"

text \<open>
  \<open>if (!versions[currentVersion][currentSection]) versions[currentVersion][currentSection] = []\<close>;
  reading a property of \<open>undefined\<close> throws.
\<close>

definition ensureSection :: "string \<Rightarrow> string \<Rightarrow> ChangelogChanges \<Rightarrow> error + ChangelogChanges" where
  "ensureSection v s ch =
     (case map_of (versions ch) v of
        None \<Rightarrow> Inl TypeError
      | Some cats \<Rightarrow>
          (case map_of cats s of
             None \<Rightarrow> Inr (ch\<lparr>versions := AList.update v (AList.update s [] cats) (versions ch)\<rparr>)
           | Some es \<Rightarrow> Inr ch))"

text \<open>\<open>changes.totalCount++; versions[currentVersion][currentSection].push(token.text)\<close>\<close>

definition pushEntry :: "string \<Rightarrow> string \<Rightarrow> string \<Rightarrow> ChangelogChanges \<Rightarrow> error + ChangelogChanges" where
  "pushEntry v s x ch =
     (case map_of (versions ch) v of
        None \<Rightarrow> Inl TypeError
      | Some cats \<Rightarrow>
          (case map_of cats s of
             None \<Rightarrow> Inl TypeError
           | Some es \<Rightarrow>
               Inr (ch\<lparr>totalCount := totalCount ch + 1,
                       versions := AList.update v (AList.update s (es @ [x]) cats) (versions ch)\<rparr>)))"

text \<open>
  The inner loop of \<open>getChangesAsync\<close>: from the token after a list item's start up to the
  first end of a list item, every token with a truthy text is an entry. The result is the
  changes and the tokens after that end. Running off the end of the tokens reads
  \<open>tokens[i].type\<close> of \<open>undefined\<close>, which throws.
\<close>

fun collectItem ::
  "string \<Rightarrow> string \<Rightarrow> ChangelogChanges \<Rightarrow> Token list \<Rightarrow> error + (ChangelogChanges \<times> Token list)" where
  "collectItem v s ch [] = Inl TypeError"
| "collectItem v s ch (t # ts) =
     (if t = ListItemEnd then Inr (ch, ts)
      else if truthy (tokenText t) then
        (case pushEntry v s (the (tokenText t)) ch of
           Inl e \<Rightarrow> Inl e
         | Inr ch' \<Rightarrow> collectItem v s ch' ts)
      else collectItem v s ch ts)"

record LoopState =
  changes :: ChangelogChanges
  currentVersion :: "string option"
  currentSection :: "string option"

text \<open>The condition under which a heading of version depth ends the loop.\<close>

definition stopsAt :: "string option \<Rightarrow> string \<Rightarrow> string \<Rightarrow> bool" where
  "stopsAt fromVersion toVersion t =
     (t \<noteq> toVersion \<and> (\<not> truthy fromVersion \<or> Some t = fromVersion))"

lemma collectItem_length:
  "collectItem v s ch ts = Inr (ch', rest) \<Longrightarrow> length rest < length ts"
proof (induction ts arbitrary: ch)
  case Nil
  then show ?case by simp
next
  case (Cons t ts)
  then show ?case
    by (fastforce split: if_splits sum.splits)
qed

text \<open>The outer loop of \<open>getChangesAsync\<close> over the remaining tokens.\<close>

function getChangesLoop ::
  "string option \<Rightarrow> string \<Rightarrow> Token list \<Rightarrow> LoopState \<Rightarrow> error + ChangelogChanges" where
  "getChangesLoop fromVersion toVersion [] st = Inr (changes st)"
| "getChangesLoop fromVersion toVersion (Heading d t # ts) st =
     (if d = VERSION_HEADING_DEPTH then
        (if stopsAt fromVersion toVersion t then Inr (changes st)
         else getChangesLoop fromVersion toVersion ts
                \<lparr>changes = ensureVersion t (changes st),
                 currentVersion = Some t, currentSection = None\<rparr>)
      else if truthy (currentVersion st) \<and> d = CHANGE_TYPE_HEADING_DEPTH then
        (case ensureSection (the (currentVersion st)) t (changes st) of
           Inl e \<Rightarrow> Inl e
         | Inr ch \<Rightarrow>
             getChangesLoop fromVersion toVersion ts
               (st\<lparr>changes := ch, currentSection := Some t\<rparr>))
      else getChangesLoop fromVersion toVersion ts st)"
| "getChangesLoop fromVersion toVersion (ListItemStart # ts) st =
     (if truthy (currentVersion st) \<and> truthy (currentSection st) then
        (case collectItem (the (currentVersion st)) (the (currentSection st)) (changes st) ts of
           Inl e \<Rightarrow> Inl e
         | Inr (ch, rest) \<Rightarrow> getChangesLoop fromVersion toVersion rest (st\<lparr>changes := ch\<rparr>))
      else getChangesLoop fromVersion toVersion ts st)"
| "getChangesLoop fromVersion toVersion (ListItemEnd # ts) st =
     getChangesLoop fromVersion toVersion ts st"
| "getChangesLoop fromVersion toVersion (TextToken x # ts) st =
     getChangesLoop fromVersion toVersion ts st"
| "getChangesLoop fromVersion toVersion (OtherToken x # ts) st =
     getChangesLoop fromVersion toVersion ts st"
  by pat_completeness auto
termination
  by (relation "measure (\<lambda>(f, t, ts, st). length ts)")
     (auto dest: collectItem_length)

text \<open>
  A changelog is the token stream of its file, or \<open>None\<close> when the file cannot be read
  (\<open>fs.access\<close> throws).
\<close>

type_synonym Changelog = "Token list option"

definition getChangesAsync ::
  "Changelog \<Rightarrow> string option \<Rightarrow> string \<Rightarrow> error + ChangelogChanges" where
  "getChangesAsync changelog fromVersion toVersion =
     (case changelog of
        None \<Rightarrow> Inl IOError
      | Some tokens \<Rightarrow>
          getChangesLoop fromVersion toVersion tokens
            \<lparr>changes = \<lparr>totalCount = 0, versions = []\<rparr>,
             currentVersion = None, currentSection = None\<rparr>)"

text \<open>The default of the parameter \<open>toVersion\<close>.\<close>

definition master :: string where
  "master = ''master''"

section \<open>Semantic versions\<close>

text \<open>
  The package \<open>semver\<close> is an external library. Its functions \<open>prerelease\<close> and
  \<open>inc\<close> are modelled on versions written \<open>MAJOR.MINOR.PATCH\<close> with an optional
  \<open>-PRERELEASE\<close> of identifiers separated by dots; a leading \<open>v\<close>, surrounding blanks
  and build metadata are not modelled, and such a string counts as invalid.
\<close>

datatype PreId = PNum nat | PStr string

record SemVer =
  svMajor :: nat
  svMinor :: nat
  svPatch :: nat
  svPrerelease :: "PreId list"

fun splitOn :: "char \<Rightarrow> string \<Rightarrow> string list" where
  "splitOn c [] = [[]]"
| "splitOn c (x # xs) =
     (if x = c then [] # splitOn c xs
      else (case splitOn c xs of [] \<Rightarrow> [[x]] | y # ys \<Rightarrow> (x # y) # ys))"

definition digitVal :: "char \<Rightarrow> nat option" where
  "digitVal c = map_of (zip ''0123456789'' [0, 1, 2, 3, 4, 5, 6, 7, 8, 9]) c"

fun parseDigits :: "nat \<Rightarrow> string \<Rightarrow> nat option" where
  "parseDigits acc [] = Some acc"
| "parseDigits acc (c # cs) =
     (case digitVal c of None \<Rightarrow> None | Some d \<Rightarrow> parseDigits (10 * acc + d) cs)"

text \<open>A numeric identifier: \<open>0\<close>, or digits without a leading zero.\<close>

definition parseNumeric :: "string \<Rightarrow> nat option" where
  "parseNumeric s =
     (if s = [] \<or> (1 < length s \<and> hd s = CHR ''0'') then None else parseDigits 0 s)"

definition isIdChar :: "char \<Rightarrow> bool" where
  "isIdChar c =
     (c \<in> set ''0123456789abcdefghijklmnopqrstuvwxyzABCDEFGHIJKLMNOPQRSTUVWXYZ-'')"

definition parsePreId :: "string \<Rightarrow> PreId option" where
  "parsePreId s =
     (if s = [] \<or> \<not> list_all isIdChar s then None
      else if list_all (\<lambda>c. digitVal c \<noteq> None) s then map_option PNum (parseNumeric s)
      else Some (PStr s))"

fun sequenceOpt :: "'a option list \<Rightarrow> 'a list option" where
  "sequenceOpt [] = Some []"
| "sequenceOpt (None # xs) = None"
| "sequenceOpt (Some x # xs) = map_option ((#) x) (sequenceOpt xs)"

definition semver_parse :: "string \<Rightarrow> SemVer option" where
  "semver_parse s =
     (let mainPart = takeWhile (\<lambda>c. c \<noteq> CHR ''-'') s;
          preRest = dropWhile (\<lambda>c. c \<noteq> CHR ''-'') s;
          pre = (if preRest = [] then Some []
                 else sequenceOpt (map parsePreId (splitOn (CHR ''.'') (tl preRest))))
      in case (sequenceOpt (map parseNumeric (splitOn (CHR ''.'') mainPart)), pre) of
           (Some [a, b, c], Some p) \<Rightarrow>
             Some \<lparr>svMajor = a, svMinor = b, svPatch = c, svPrerelease = p\<rparr>
         | _ \<Rightarrow> None)"

fun showNat :: "nat \<Rightarrow> string" where
  "showNat n =
     (if n < 10 then [''0123456789'' ! n]
      else showNat (n div 10) @ [''0123456789'' ! (n mod 10)])"

declare showNat.simps [simp del]

fun showPreId :: "PreId \<Rightarrow> string" where
  "showPreId (PNum n) = showNat n"
| "showPreId (PStr s) = s"

fun joinDot :: "string list \<Rightarrow> string" where
  "joinDot [] = []"
| "joinDot [x] = x"
| "joinDot (x # y # ys) = x @ ''.'' @ joinDot (y # ys)"

definition semver_format :: "SemVer \<Rightarrow> string" where
  "semver_format v =
     showNat (svMajor v) @ ''.'' @ showNat (svMinor v) @ ''.'' @ showNat (svPatch v) @
     (if svPrerelease v = [] then [] else ''-'' @ joinDot (map showPreId (svPrerelease v)))"

text \<open>\<open>semver.prerelease\<close>: the prerelease identifiers, or \<open>null\<close> when there are none
  or the version is invalid.\<close>

definition semver_prerelease :: "string \<Rightarrow> PreId list option" where
  "semver_prerelease s =
     (case semver_parse s of
        None \<Rightarrow> None
      | Some v \<Rightarrow> if svPrerelease v = [] then None else Some (svPrerelease v))"

text \<open>
  The enum \<open>ReleaseType\<close> of the command, with exactly the six members it declares.
\<close>

datatype ReleaseType = MAJOR | MINOR | PATCH | PREMAJOR | PREMINOR | PREPATCH

text \<open>
  The expression \<open>ReleaseType.PRERELEASE\<close>, which the command uses twice, names no member
  of that enum: reading the property yields \<open>undefined\<close>.
\<close>

definition ReleaseType_PRERELEASE :: "ReleaseType option" where
  "ReleaseType_PRERELEASE = None"

text \<open>The step \<open>pre\<close> of \<open>SemVer.inc\<close>: the rightmost numeric identifier is incremented,
  or \<open>0\<close> is appended; a truthy identifier then resets the track unless it is already
  the first identifier and a number follows it.\<close>

fun incRightmostNum :: "PreId list \<Rightarrow> PreId list option" where
  "incRightmostNum [] = None"
| "incRightmostNum (PNum n # xs) = Some (PNum (n + 1) # xs)"
| "incRightmostNum (PStr s # xs) = map_option ((#) (PStr s)) (incRightmostNum xs)"

definition incPre :: "PreId list \<Rightarrow> string option \<Rightarrow> PreId list" where
  "incPre pre identifier =
     (let p = (if pre = [] then [PNum 0]
               else (case incRightmostNum (rev pre) of
                       Some r \<Rightarrow> rev r
                     | None \<Rightarrow> pre @ [PNum 0]))
      in if truthy identifier then
           (case p of
              PStr i # PNum n # rest \<Rightarrow>
                if i = the identifier then p else [PStr (the identifier), PNum 0]
            | _ \<Rightarrow> [PStr (the identifier), PNum 0])
         else p)"

fun semver_incVersion :: "SemVer \<Rightarrow> ReleaseType \<Rightarrow> string option \<Rightarrow> SemVer" where
  "semver_incVersion v MAJOR i =
     \<lparr>svMajor = (if svMinor v \<noteq> 0 \<or> svPatch v \<noteq> 0 \<or> svPrerelease v = []
                 then svMajor v + 1 else svMajor v),
      svMinor = 0, svPatch = 0, svPrerelease = []\<rparr>"
| "semver_incVersion v MINOR i =
     \<lparr>svMajor = svMajor v,
      svMinor = (if svPatch v \<noteq> 0 \<or> svPrerelease v = [] then svMinor v + 1 else svMinor v),
      svPatch = 0, svPrerelease = []\<rparr>"
| "semver_incVersion v PATCH i =
     \<lparr>svMajor = svMajor v, svMinor = svMinor v,
      svPatch = (if svPrerelease v = [] then svPatch v + 1 else svPatch v),
      svPrerelease = []\<rparr>"
| "semver_incVersion v PREMAJOR i =
     \<lparr>svMajor = svMajor v + 1, svMinor = 0, svPatch = 0, svPrerelease = incPre [] i\<rparr>"
| "semver_incVersion v PREMINOR i =
     \<lparr>svMajor = svMajor v, svMinor = svMinor v + 1, svPatch = 0, svPrerelease = incPre [] i\<rparr>"
| "semver_incVersion v PREPATCH i =
     \<lparr>svMajor = svMajor v, svMinor = svMinor v, svPatch = svPatch v + 1,
      svPrerelease = incPre [] i\<rparr>"

text \<open>
  \<open>semver.inc(version, release, identifier)\<close>: \<open>null\<close> for an invalid version and for a
  release that is not one of the library's release types, as \<open>undefined\<close> is.
\<close>

definition semver_inc :: "string \<Rightarrow> ReleaseType option \<Rightarrow> string option \<Rightarrow> string option" where
  "semver_inc version release identifier =
     (case (semver_parse version, release) of
        (Some v, Some r) \<Rightarrow> Some (semver_format (semver_incVersion v r identifier))
      | _ \<Rightarrow> None)"

section \<open>Git\<close>

record GitLogOptions =
  fromCommit :: "string option"
  toCommit :: "string option"

record GitLog =
  hash :: string
  parent :: string
  title :: string
  authorName :: string
  committerRelativeDate :: string

datatype GitFileStatus = M | C | R | A | D | U

record GitFileLog =
  path :: string
  relativePath :: string
  status :: "GitFileStatus option"

text \<open>
  What the spawned \<open>git\<close> answers: for a working directory and a range \<open>from..to\<close>, the
  parsed output of \<open>git log\<close> (the newest commit first) and of \<open>git diff --name-status\<close>,
  or \<open>None\<close> when the process fails. The operator's answers to the prompts are part of
  the environment as well.
\<close>

record Env =
  gitLogOutput :: "string \<Rightarrow> string \<Rightarrow> GitLog list option"
  gitDiffOutput :: "string \<Rightarrow> string \<Rightarrow> GitFileLog list option"
  promptSelected :: "string \<Rightarrow> bool"
  promptRestore :: bool

definition commitRange :: "GitLogOptions \<Rightarrow> string" where
  "commitRange opts =
     (case fromCommit opts of None \<Rightarrow> [] | Some c \<Rightarrow> c) @ ''..'' @
     (case toCommit opts of None \<Rightarrow> ''head'' | Some c \<Rightarrow> c)"

definition logAsync :: "Env \<Rightarrow> string \<Rightarrow> GitLogOptions \<Rightarrow> error + GitLog list" where
  "logAsync env cwd opts =
     (case gitLogOutput env cwd (commitRange opts) of
        None \<Rightarrow> Inl IOError
      | Some ls \<Rightarrow> Inr ls)"

definition logFilesAsync :: "Env \<Rightarrow> string \<Rightarrow> GitLogOptions \<Rightarrow> error + GitFileLog list" where
  "logFilesAsync env cwd opts =
     (case gitDiffOutput env cwd (commitRange opts) of
        None \<Rightarrow> Inl IOError
      | Some ls \<Rightarrow> Inr ls)"

section \<open>Packages and their state\<close>

text \<open>
  Modelled from the spec: the modules \<open>../Packages\<close> and \<open>../Npm\<close> are not among the
  sources. A package has a name, a current version, a root path and its manifest, of
  which the command reads and writes the version and the last-published commit
  reference \<open>gitHead\<close>; the registry snapshot has a \<open>gitHead\<close>.
\<close>

record PackageJson =
  version :: string
  gitHead :: "string option"

record Package =
  packageName :: string
  packageVersion :: string
  path :: string
  packageJson :: PackageJson

record PackageViewType =
  gitHead :: "string option"

datatype BoolOrString = Bool bool | Str string

record ActionOptions =
  listUnpublished :: bool
  prerelease :: BoolOrString
  exclude :: string
  scope :: string
  retry :: bool
  skipRepoChecks :: bool
  dry :: bool

record BackupableOptions =
  scope :: string
  exclude :: string
  dry :: bool

text \<open>
  Every field of a package's state is absent until a phase sets it. \<open>null\<close> and
  \<open>undefined\<close> are both \<open>None\<close>: the command only tests these fields for truthiness.
\<close>

record PackageState =
  hasUnpublishedChanges :: "bool option"
  isSelectedToPublish :: "bool option"
  changelogChanges :: "ChangelogChanges option"
  integral :: "bool option"
  logs :: "GitLog list option"
  fileLogs :: "GitFileLog list option"
  releaseType :: "ReleaseType option"
  releaseVersion :: "string option"

definition emptyState :: PackageState where
  "emptyState =
     \<lparr>hasUnpublishedChanges = None, isSelectedToPublish = None, changelogChanges = None,
      integral = None, logs = None, fileLogs = None, releaseType = None,
      releaseVersion = None\<rparr>"

record PackageFabric =
  pkg :: Package
  pkgView :: "PackageViewType option"
  changelog :: Changelog
  state :: PackageState

type_synonym Fabrics = "PackageFabric list"

section \<open>The release decision\<close>

definition NATIVE_DIRECTORIES :: "string list" where
  "NATIVE_DIRECTORIES = [''ios'', ''android'']"

definition fileLogsContainNativeChanges :: "GitFileLog list \<Rightarrow> bool" where
  "fileLogsContainNativeChanges fls =
     list_ex (\<lambda>fileLog.
        list_ex (\<lambda>dir. startsWith (relativePath fileLog) (dir @ ''/'')) NATIVE_DIRECTORIES) fls"

text \<open>
  \<open>changelogChanges?.versions.master?.[ChangeType.BREAKING_CHANGES]?.length\<close>, with
  \<open>undefined\<close> read as 0: both are falsy.
\<close>

definition breakingChangesLength :: "ChangelogChanges option \<Rightarrow> nat" where
  "breakingChangesLength cc =
     (case cc of
        None \<Rightarrow> 0
      | Some ch \<Rightarrow>
          (case map_of (versions ch) ''master'' of
             None \<Rightarrow> 0
           | Some cats \<Rightarrow>
               (case map_of cats (changeTypeLabel BREAKING_CHANGES) of
                  None \<Rightarrow> 0
                | Some es \<Rightarrow> length es)))"

text \<open>
  \<open>version0\<close> is the parameter \<open>currentVersion\<close>. The fourth parameter is declared by the
  source and never read.
\<close>

definition getSuggestedReleaseType ::
  "string \<Rightarrow> GitFileLog list option \<Rightarrow> ChangelogChanges option \<Rightarrow> BoolOrString option
     \<Rightarrow> ReleaseType option" where
  "getSuggestedReleaseType version0 fls cc pre =
     (if semver_prerelease version0 \<noteq> None then ReleaseType_PRERELEASE
      else if breakingChangesLength cc \<noteq> 0 then Some MAJOR
      else if (case fls of None \<Rightarrow> False | Some l \<Rightarrow> fileLogsContainNativeChanges l)
        then Some MINOR
      else Some PATCH)"

section \<open>Finding unpublished packages\<close>

text \<open>\<open>logs[logs.length - 1]?.hash\<close> and \<open>logs[0]?.hash\<close>\<close>

definition lastHash :: "GitLog list \<Rightarrow> string option" where
  "lastHash ls = (if ls = [] then None else Some (hash (last ls)))"

definition firstHash :: "GitLog list \<Rightarrow> string option" where
  "firstHash ls = (case ls of [] \<Rightarrow> None | l # _ \<Rightarrow> Some (hash l))"

text \<open>\<open>options.prerelease === true ? 'rc' : options.prerelease\<close>, where \<open>false\<close> is \<open>None\<close>.\<close>

fun prereleaseIdentifier :: "BoolOrString \<Rightarrow> string option" where
  "prereleaseIdentifier (Bool True) = Some ''rc''"
| "prereleaseIdentifier (Bool False) = None"
| "prereleaseIdentifier (Str s) = Some s"

text \<open>
  The body of the loop of \<open>findUnpublishedPackagesAsync\<close> for one fabric. \<open>logs.pop()\<close>
  removes the last element of the array, which is \<open>butlast\<close>, and does nothing to an empty
  array. The options are \<open>None\<close> when the caller passes none; reading a property of
  \<open>undefined\<close> throws.
\<close>

definition findUnpublishedPackage ::
  "Env \<Rightarrow> ActionOptions option \<Rightarrow> PackageFabric \<Rightarrow> error + PackageFabric" where
  "findUnpublishedPackage env opts fab =
     (case getChangesAsync (changelog fab) None master of
        Inl e \<Rightarrow> Inl e
      | Inr cc \<Rightarrow>
     (case logAsync env (Package.path (pkg fab))
             \<lparr>fromCommit = PackageJson.gitHead (packageJson (pkg fab)),
              toCommit = Some ''head''\<rparr> of
        Inl e \<Rightarrow> Inl e
      | Inr ls \<Rightarrow>
     (case logFilesAsync env (Package.path (pkg fab))
             \<lparr>fromCommit = lastHash ls, toCommit = firstHash ls\<rparr> of
        Inl e \<Rightarrow> Inl e
      | Inr fls \<Rightarrow>
          (let ls' = (if truthy (PackageJson.gitHead (packageJson (pkg fab)))
                      then butlast ls else ls);
               rt = getSuggestedReleaseType (packageVersion (pkg fab)) (Some fls) (Some cc) None;
               rv = semver_inc (packageVersion (pkg fab)) rt None;
               st = (state fab)
                      \<lparr>logs := Some ls', fileLogs := Some fls, changelogChanges := Some cc,
                       hasUnpublishedChanges := Some (0 < length ls' \<or> 0 < totalCount cc),
                       releaseType := rt, releaseVersion := rv\<rparr>
           in if rt = None \<or> \<not> truthy rv then Inr (fab\<lparr>state := st\<rparr>)
              else
                (case opts of
                   None \<Rightarrow> Inl TypeError
                 | Some os \<Rightarrow>
                     (let pre = prereleaseIdentifier (prerelease os)
                      in if truthy pre then
                           Inr (fab\<lparr>state := st
                                  \<lparr>releaseType := ReleaseType_PRERELEASE,
                                   releaseVersion :=
                                     semver_inc (the rv) ReleaseType_PRERELEASE pre\<rparr>\<rparr>)
                         else Inr (fab\<lparr>state := st\<rparr>)))))))"

text \<open>A loop over the fabrics that stops at the first exception.\<close>

fun forEachFabric ::
  "(PackageFabric \<Rightarrow> error + PackageFabric) \<Rightarrow> Fabrics \<Rightarrow> error + Fabrics" where
  "forEachFabric f [] = Inr []"
| "forEachFabric f (fab # fabs) =
     (case f fab of
        Inl e \<Rightarrow> Inl e
      | Inr fab' \<Rightarrow>
          (case forEachFabric f fabs of
             Inl e \<Rightarrow> Inl e
           | Inr fabs' \<Rightarrow> Inr (fab' # fabs')))"

definition findUnpublishedPackagesAsync ::
  "Env \<Rightarrow> Fabrics \<Rightarrow> ActionOptions option \<Rightarrow> error + Fabrics" where
  "findUnpublishedPackagesAsync env fabrics opts =
     forEachFabric (findUnpublishedPackage env opts) fabrics"

section \<open>The other phases\<close>

definition checkPackagesIntegrity :: "Fabrics \<Rightarrow> Fabrics" where
  "checkPackagesIntegrity fabrics =
     map (\<lambda>fab. fab\<lparr>state := (state fab)
            \<lparr>integral := Some (case pkgView fab of
                 None \<Rightarrow> True
               | Some v \<Rightarrow> PackageJson.gitHead (packageJson (pkg fab)) = PackageViewType.gitHead v)\<rparr>\<rparr>)
       fabrics"

text \<open>
  The operator is asked about each fabric with unpublished changes, and only those get
  \<open>isSelectedToPublish\<close>. The answers come from the environment, by package name.
\<close>

definition choosePackagesToPublishAsync :: "Env \<Rightarrow> Fabrics \<Rightarrow> Fabrics" where
  "choosePackagesToPublishAsync env fabrics =
     map (\<lambda>fab.
        if hasUnpublishedChanges (state fab) = Some True
        then fab\<lparr>state := (state fab)
               \<lparr>isSelectedToPublish := Some (promptSelected env (packageName (pkg fab)))\<rparr>\<rparr>
        else fab) fabrics"

text \<open>
  The files the command writes: the backup file, the manifest \<open>package.json\<close> of each
  package by its path, and \<open>bundledNativeModules.json\<close>, each \<open>None\<close> or absent from the
  dictionary when the file does not exist.
\<close>

record StateBackup =
  timestamp :: int
  head :: string
  phaseIndex :: nat
  options :: BackupableOptions
  state :: "PackageState dict"

record Disk =
  backupFile :: "StateBackup option"
  manifests :: "PackageJson dict"
  bundledNativeModules :: "string dict option"

definition manifestPath :: "Package \<Rightarrow> string" where
  "manifestPath p = Package.path p @ ''/package.json''"

text \<open>\<open>state.logs?.[0]?.hash ?? pkg.packageJson.gitHead\<close>\<close>

definition newGitHead :: "PackageFabric \<Rightarrow> string option" where
  "newGitHead fab =
     (case logs (PackageFabric.state fab) of
        Some (l # _) \<Rightarrow> Some (hash l)
      | _ \<Rightarrow> PackageJson.gitHead (packageJson (pkg fab)))"

text \<open>The body of the loop of \<open>updateVersionsAsync\<close> for one fabric.\<close>

definition updateVersion :: "PackageFabric \<Rightarrow> Disk \<Rightarrow> Disk" where
  "updateVersion fab disk =
     (if \<not> truthy (newGitHead fab) \<or> \<not> truthy (releaseVersion (PackageFabric.state fab))
      then disk
      else disk\<lparr>manifests :=
             AList.update (manifestPath (pkg fab))
               ((packageJson (pkg fab))
                  \<lparr>version := the (releaseVersion (PackageFabric.state fab)),
                   PackageJson.gitHead := newGitHead fab\<rparr>)
               (manifests disk)\<rparr>)"

definition updateVersionsAsync :: "Fabrics \<Rightarrow> Disk \<Rightarrow> Disk" where
  "updateVersionsAsync fabrics disk = fold updateVersion fabrics disk"

text \<open>The template \<open>~${state.releaseVersion}\<close>; an absent version prints as \<open>null\<close>.\<close>

definition versionRange :: "PackageFabric \<Rightarrow> string" where
  "versionRange fab =
     ''~'' @ (case releaseVersion (PackageFabric.state fab) of None \<Rightarrow> ''null'' | Some v \<Rightarrow> v)"

definition updateBundledNativeModulesFileAsync :: "Fabrics \<Rightarrow> Disk \<Rightarrow> error + Disk" where
  "updateBundledNativeModulesFileAsync fabrics disk =
     (let toPublish =
            filter (\<lambda>fab. isSelectedToPublish (PackageFabric.state fab) = Some True) fabrics
      in if toPublish = [] then Inr disk
         else
           (case bundledNativeModules disk of
              None \<Rightarrow> Inl IOError
            | Some bnm \<Rightarrow>
                Inr (disk\<lparr>bundledNativeModules :=
                       Some (fold (\<lambda>fab m. AList.update (packageName (pkg fab)) (versionRange fab) m)
                               toPublish bnm)\<rparr>)))"

section \<open>Backups\<close>

definition BACKUP_EXPIRATION_TIME :: int where
  "BACKUP_EXPIRATION_TIME = 30 * 60 * 1000"

definition pickBackupableOptions :: "ActionOptions \<Rightarrow> BackupableOptions" where
  "pickBackupableOptions os =
     \<lparr>scope = ActionOptions.scope os, exclude = ActionOptions.exclude os,
      dry = ActionOptions.dry os\<rparr>"

text \<open>
  \<open>jsondiffpatch.diff\<close> on two objects with these three properties: \<open>undefined\<close> when
  they are equal, else a delta, of which the model keeps the names of the properties
  that differ.
\<close>

definition diff :: "BackupableOptions \<Rightarrow> BackupableOptions \<Rightarrow> string list option" where
  "diff l r =
     (let delta =
            (if scope l = scope r then [] else [''scope'']) @
            (if exclude l = exclude r then [] else [''exclude'']) @
            (if dry l = dry r then [] else [''dry''])
      in if delta = [] then None else Some delta)"

text \<open>\<open>now\<close> is the value of \<open>Date.now()\<close>, in milliseconds.\<close>

definition isBackupValid :: "int \<Rightarrow> StateBackup \<Rightarrow> string \<Rightarrow> ActionOptions \<Rightarrow> bool" where
  "isBackupValid now backup currentHead os =
     (if currentHead \<noteq> head backup \<or> now - timestamp backup > BACKUP_EXPIRATION_TIME
      then False
      else (case diff (pickBackupableOptions os) (options backup) of
              Some delta \<Rightarrow> False
            | None \<Rightarrow> True))"

definition maybeRestoreBackupAsync ::
  "Env \<Rightarrow> int \<Rightarrow> Disk \<Rightarrow> string \<Rightarrow> ActionOptions \<Rightarrow> StateBackup option" where
  "maybeRestoreBackupAsync env now disk currentHead os =
     (case backupFile disk of
        None \<Rightarrow> None
      | Some backup \<Rightarrow>
          if \<not> isBackupValid now backup currentHead os then None
          else if retry os then Some backup
          else if promptRestore env then Some backup else None)"

definition saveBackup ::
  "int \<Rightarrow> string \<Rightarrow> nat \<Rightarrow> Fabrics \<Rightarrow> ActionOptions \<Rightarrow> Disk \<Rightarrow> Disk" where
  "saveBackup now h i fabrics os disk =
     disk\<lparr>backupFile := Some
       \<lparr>timestamp = now, head = h, phaseIndex = i,
        options = pickBackupableOptions os,
        state = fold (\<lambda>fab m. AList.update (packageName (pkg fab)) (PackageFabric.state fab) m)
                  fabrics []\<rparr>\<rparr>"

section \<open>The pipeline\<close>

text \<open>
  A phase takes the fabrics and the options and may write files; an exception leaves
  the files as they were when the phase began.
\<close>

type_synonym Phase = "Fabrics \<Rightarrow> ActionOptions \<Rightarrow> Disk \<Rightarrow> error + (Fabrics \<times> Disk)"

definition phases :: "Env \<Rightarrow> Phase list" where
  "phases env =
     [\<lambda>fabrics os disk. Inr (checkPackagesIntegrity fabrics, disk),
      \<lambda>fabrics os disk.
         (case findUnpublishedPackagesAsync env fabrics (Some os) of
            Inl e \<Rightarrow> Inl e
          | Inr fabrics' \<Rightarrow> Inr (fabrics', disk)),
      \<lambda>fabrics os disk. Inr (choosePackagesToPublishAsync env fabrics, disk),
      \<lambda>fabrics os disk. Inr (fabrics, updateVersionsAsync fabrics disk),
      \<lambda>fabrics os disk.
         (case updateBundledNativeModulesFileAsync fabrics disk of
            Inl e \<Rightarrow> Inl e
          | Inr disk' \<Rightarrow> Inr (fabrics, disk'))]"

text \<open>\<open>{ ...item.state, ...restoredState }\<close>: a field present in the backup wins.\<close>

definition orElse :: "'a option \<Rightarrow> 'a option \<Rightarrow> 'a option" where
  "orElse restored old = (case restored of None \<Rightarrow> old | Some x \<Rightarrow> Some x)"

definition overlay :: "PackageState \<Rightarrow> PackageState \<Rightarrow> PackageState" where
  "overlay old restored =
     \<lparr>hasUnpublishedChanges = orElse (hasUnpublishedChanges restored) (hasUnpublishedChanges old),
      isSelectedToPublish = orElse (isSelectedToPublish restored) (isSelectedToPublish old),
      changelogChanges = orElse (changelogChanges restored) (changelogChanges old),
      integral = orElse (integral restored) (integral old),
      logs = orElse (logs restored) (logs old),
      fileLogs = orElse (fileLogs restored) (fileLogs old),
      releaseType = orElse (releaseType restored) (releaseType old),
      releaseVersion = orElse (releaseVersion restored) (releaseVersion old)\<rparr>"

definition restoreFabrics :: "StateBackup \<Rightarrow> Fabrics \<Rightarrow> Fabrics" where
  "restoreFabrics backup fabrics =
     map (\<lambda>item.
        case map_of (StateBackup.state backup) (packageName (pkg item)) of
          None \<Rightarrow> item
        | Some restoredState \<Rightarrow>
            item\<lparr>PackageFabric.state := overlay (PackageFabric.state item) restoredState\<rparr>)
       fabrics"

text \<open>
  How a run ends: every phase done, or an exception in the phase of the given index
  followed by \<open>process.exit(1)\<close>. \<open>fabricsAfter\<close> is the fabrics as the last completed
  phase left them, \<open>diskAfter\<close> the files when the process ends. \<open>executed\<close> lists the
  indices of the phases the run called, in order; the source does not keep this list.
\<close>

datatype Outcome = Done | FailedAt nat

record Run =
  outcome :: Outcome
  fabricsAfter :: Fabrics
  diskAfter :: Disk
  executed :: "nat list"

text \<open>The loop \<open>for (; phaseIndex < phases.length; phaseIndex++)\<close> of \<open>action\<close> and the
  removal of the backup after it.\<close>

function runPhases ::
  "Phase list \<Rightarrow> int \<Rightarrow> string \<Rightarrow> ActionOptions \<Rightarrow> nat \<Rightarrow> Fabrics \<Rightarrow> Disk \<Rightarrow> nat list \<Rightarrow> Run" where
  "runPhases ps now headCommitHash os i fabrics disk called =
     (if i < length ps then
        (case (ps ! i) fabrics os disk of
           Inl e \<Rightarrow>
             \<lparr>outcome = FailedAt i, fabricsAfter = fabrics, diskAfter = disk,
              executed = called @ [i]\<rparr>
         | Inr (fabrics', disk') \<Rightarrow>
             runPhases ps now headCommitHash os (i + 1) fabrics'
               (saveBackup now headCommitHash i fabrics' os disk') (called @ [i]))
      else
        \<lparr>outcome = Done, fabricsAfter = fabrics, diskAfter = disk\<lparr>backupFile := None\<rparr>,
         executed = called\<rparr>)"
  by pat_completeness auto
termination
  by (relation "measure (\<lambda>(ps, now, h, os, i, fabrics, disk, called). length ps - i)") auto

declare runPhases.simps [simp del]

text \<open>
  The part of \<open>action\<close> that follows the checks of the repository and the preparation
  of the fabrics: the backup is restored if there is a valid one, and the phases run
  from the index it holds, or from 0. All calls of \<open>Date.now()\<close> in one run read \<open>now\<close>.
\<close>

definition action ::
  "Env \<Rightarrow> int \<Rightarrow> string \<Rightarrow> Fabrics \<Rightarrow> ActionOptions \<Rightarrow> Disk \<Rightarrow> Run" where
  "action env now headCommitHash fabrics os disk =
     (case maybeRestoreBackupAsync env now disk headCommitHash os of
        None \<Rightarrow> runPhases (phases env) now headCommitHash os 0 fabrics disk []
      | Some backup \<Rightarrow>
          runPhases (phases env) now headCommitHash os (phaseIndex backup)
            (restoreFabrics backup fabrics) disk [])"

section \<open>Example inputs\<close>

text \<open>
  Two packages: \<open>pkg-a\<close> has a breaking change in its changelog, two commits since its
  last publish (the newer first) and a changed file under \<open>ios/\<close>; \<open>pkg-b\<close> has no
  change at all. Both were published before from the commit \<open>abc\<close>.
\<close>

definition ex_newer :: GitLog where
  "ex_newer = \<lparr>hash = ''c2'', parent = ''c1'', title = ''Fix a crash'', authorName = ''a'',
                committerRelativeDate = ''1 day ago''\<rparr>"

definition ex_older :: GitLog where
  "ex_older = \<lparr>hash = ''c1'', parent = ''abc'', title = ''Publish packages'', authorName = ''a'',
                committerRelativeDate = ''2 days ago''\<rparr>"

definition ex_fileLog :: GitFileLog where
  "ex_fileLog = \<lparr>GitFileLog.path = ''packages/a/ios/Foo.m'', relativePath = ''ios/Foo.m'',
                  status = Some M\<rparr>"

definition ex_gitLog :: "string \<Rightarrow> string \<Rightarrow> GitLog list option" where
  "ex_gitLog cwd rng = (if cwd = ''packages/a'' then Some [ex_newer, ex_older] else Some [])"

definition ex_gitDiff :: "string \<Rightarrow> string \<Rightarrow> GitFileLog list option" where
  "ex_gitDiff cwd rng = (if cwd = ''packages/a'' then Some [ex_fileLog] else Some [])"

definition ex_yes :: "string \<Rightarrow> bool" where
  "ex_yes name = True"

definition ex_env :: Env where
  "ex_env = \<lparr>gitLogOutput = ex_gitLog, gitDiffOutput = ex_gitDiff, promptSelected = ex_yes,
              promptRestore = True\<rparr>"

definition ex_options :: ActionOptions where
  "ex_options = \<lparr>listUnpublished = False, prerelease = Bool False, exclude = [], scope = [],
                  retry = True, skipRepoChecks = False, dry = False\<rparr>"

definition ex_sectionMaster :: "Token list" where
  "ex_sectionMaster =
     [Heading 1 ''Changelog'',
      Heading 2 ''master'',
      Heading 3 (changeTypeLabel BREAKING_CHANGES),
      ListItemStart, TextToken ''Removed x'', ListItemEnd]"

definition ex_section120 :: "Token list" where
  "ex_section120 =
     [Heading 2 ''1.2.0'',
      Heading 3 (changeTypeLabel BUG_FIXES),
      ListItemStart, TextToken ''Fixed y'', ListItemEnd]"

definition ex_section110 :: "Token list" where
  "ex_section110 =
     [Heading 2 ''1.1.0'',
      Heading 3 (changeTypeLabel NEW_FEATURES),
      ListItemStart, TextToken ''Added z'', ListItemEnd]"

definition ex_tokens :: "Token list" where
  "ex_tokens = ex_sectionMaster @ ex_section120 @ ex_section110"

definition ex_manifest :: PackageJson where
  "ex_manifest = \<lparr>version = ''1.0.0'', PackageJson.gitHead = Some ''abc''\<rparr>"

definition ex_fabricA :: PackageFabric where
  "ex_fabricA =
     \<lparr>pkg = \<lparr>packageName = ''pkg-a'', packageVersion = ''1.0.0'', Package.path = ''packages/a'',
             packageJson = ex_manifest\<rparr>,
      pkgView = None, changelog = Some ex_tokens, PackageFabric.state = emptyState\<rparr>"

definition ex_fabricB :: PackageFabric where
  "ex_fabricB =
     \<lparr>pkg = \<lparr>packageName = ''pkg-b'', packageVersion = ''1.0.0'', Package.path = ''packages/b'',
             packageJson = ex_manifest\<rparr>,
      pkgView = None, changelog = Some [Heading 2 ''master''],
      PackageFabric.state = emptyState\<rparr>"

definition ex_disk :: Disk where
  "ex_disk =
     \<lparr>backupFile = None,
      manifests = [(''packages/a/package.json'', ex_manifest),
                   (''packages/b/package.json'', ex_manifest)],
      bundledNativeModules = Some []\<rparr>"

text \<open>What a phase leaves in a fabric's state, for the statements below.\<close>

definition logsOf :: "error + PackageFabric \<Rightarrow> GitLog list option" where
  "logsOf r = (case r of Inl e \<Rightarrow> None | Inr fab \<Rightarrow> logs (PackageFabric.state fab))"

definition releaseOf :: "error + PackageFabric \<Rightarrow> (ReleaseType option \<times> string option) option" where
  "releaseOf r =
     (case r of
        Inl e \<Rightarrow> None
      | Inr fab \<Rightarrow>
          Some (releaseType (PackageFabric.state fab), releaseVersion (PackageFabric.state fab)))"

definition selectedNames :: "Fabrics \<Rightarrow> string list" where
  "selectedNames fabrics =
     map (\<lambda>fab. packageName (pkg fab))
       (filter (\<lambda>fab. isSelectedToPublish (PackageFabric.state fab) = Some True) fabrics)"




definition ex_fullRun :: Run where
  "ex_fullRun = action ex_env 0 ''head'' [ex_fabricA, ex_fabricB] ex_options ex_disk"







lemmas semver_defs =
  semver_inc_def semver_parse_def semver_prerelease_def semver_format_def parseNumeric_def
  parsePreId_def digitVal_def isIdChar_def showNat.simps

section \<open>Validity of a backup\<close>

lemma diff_None_iff: "diff l r = None \<longleftrightarrow> l = r"
  by (cases l, cases r) (simp add: diff_def)

text \<open>
  Claim C3. A stored backup is accepted if and only if its head is the current head, its
  age is at most the expiration time and its recorded options are those picked from the
  options of the current run. The equivalence gives both directions: when all three
  hold the backup is valid, and when any one fails it is not.
\<close>

theorem isBackupValid_iff:
  "isBackupValid now backup currentHead os \<longleftrightarrow>
     head backup = currentHead \<and>
     now - timestamp backup \<le> BACKUP_EXPIRATION_TIME \<and>
     options backup = pickBackupableOptions os"
proof (cases "diff (pickBackupableOptions os) (options backup)")
  case None
  then have "options backup = pickBackupableOptions os"
    using diff_None_iff by metis
  with None show ?thesis
    by (auto simp: isBackupValid_def)
next
  case (Some delta)
  then have "options backup \<noteq> pickBackupableOptions os"
    using diff_None_iff by (metis option.distinct(1))
  with Some show ?thesis
    by (auto simp: isBackupValid_def)
qed

theorem isBackupValid_iff_witness:
  "isBackupValid 1500000
     \<lparr>timestamp = 0, head = ''abc'', phaseIndex = 2,
      options = \<lparr>scope = ''pkg-a'', exclude = [], dry = False\<rparr>, StateBackup.state = []\<rparr>
     ''abc'' (ex_options\<lparr>ActionOptions.scope := ''pkg-a''\<rparr>) \<and>
   \<not> isBackupValid 1500000
     \<lparr>timestamp = 0, head = ''abc'', phaseIndex = 2,
      options = \<lparr>scope = ''pkg-a'', exclude = [], dry = False\<rparr>, StateBackup.state = []\<rparr>
     ''abd'' (ex_options\<lparr>ActionOptions.scope := ''pkg-a''\<rparr>) \<and>
   \<not> isBackupValid 1800001
     \<lparr>timestamp = 0, head = ''abc'', phaseIndex = 2,
      options = \<lparr>scope = ''pkg-a'', exclude = [], dry = False\<rparr>, StateBackup.state = []\<rparr>
     ''abc'' (ex_options\<lparr>ActionOptions.scope := ''pkg-a''\<rparr>) \<and>
   \<not> isBackupValid 1500000
     \<lparr>timestamp = 0, head = ''abc'', phaseIndex = 2,
      options = \<lparr>scope = ''pkg-a'', exclude = [], dry = False\<rparr>, StateBackup.state = []\<rparr>
     ''abc'' (ex_options\<lparr>ActionOptions.scope := ''pkg-a'', ActionOptions.dry := True\<rparr>)"
  by (simp add: isBackupValid_iff BACKUP_EXPIRATION_TIME_def pickBackupableOptions_def
        ex_options_def)



section \<open>The release decision\<close>

lemma startsWith_prefix: "startsWith s p \<longleftrightarrow> prefix p s"
  unfolding startsWith_def
  by (metis append_eq_conv_conj prefix_def append_take_drop_id)

lemma fileLogsContainNativeChanges_iff:
  "fileLogsContainNativeChanges l \<longleftrightarrow>
     (\<exists>fl \<in> set l. prefix ''ios/'' (relativePath fl) \<or> prefix ''android/'' (relativePath fl))"
  by (auto simp: fileLogsContainNativeChanges_def NATIVE_DIRECTORIES_def list_ex_iff
        startsWith_prefix)

lemma breakingChangesLength_iff:
  "breakingChangesLength cc \<noteq> 0 \<longleftrightarrow>
     (\<exists>ch cats es. cc = Some ch \<and> map_of (versions ch) ''master'' = Some cats \<and>
        map_of cats (changeTypeLabel BREAKING_CHANGES) = Some es \<and> es \<noteq> [])"
  by (auto simp: breakingChangesLength_def split: option.splits)

text \<open>
  Claim C2. For a current version that is not a prerelease, the suggested release type
  is major when the section \<open>master\<close> of the changes has a non-empty list of breaking
  changes; otherwise minor when the relative path of some file log starts with \<open>ios/\<close>
  or \<open>android/\<close>; otherwise patch.
\<close>

theorem getSuggestedReleaseType_precedence:
  assumes "semver_prerelease v = None"
  shows "getSuggestedReleaseType v fls cc pre =
     (if (\<exists>ch cats es. cc = Some ch \<and> map_of (versions ch) ''master'' = Some cats \<and>
            map_of cats (changeTypeLabel BREAKING_CHANGES) = Some es \<and> es \<noteq> [])
      then Some MAJOR
      else if (\<exists>l fl. fls = Some l \<and> fl \<in> set l \<and>
                 (prefix ''ios/'' (relativePath fl) \<or> prefix ''android/'' (relativePath fl)))
      then Some MINOR
      else Some PATCH)"
proof -
  have native: "(case fls of None \<Rightarrow> False | Some l \<Rightarrow> fileLogsContainNativeChanges l) \<longleftrightarrow>
      (\<exists>l fl. fls = Some l \<and> fl \<in> set l \<and>
         (prefix ''ios/'' (relativePath fl) \<or> prefix ''android/'' (relativePath fl)))"
    by (cases fls) (auto simp: fileLogsContainNativeChanges_iff)
  show ?thesis
    unfolding getSuggestedReleaseType_def native breakingChangesLength_iff
    using assms by simp
qed

theorem getSuggestedReleaseType_precedence_witness:
  "semver_prerelease ''2.0.0'' = None \<and>
   getSuggestedReleaseType ''2.0.0'' (Some [ex_fileLog])
     (Some \<lparr>totalCount = 1,
            versions = [(''master'', [(changeTypeLabel BREAKING_CHANGES, [''Removed x''])])]\<rparr>)
     None = Some MAJOR \<and>
   getSuggestedReleaseType ''2.0.0'' (Some [ex_fileLog])
     (Some \<lparr>totalCount = 0, versions = []\<rparr>) None = Some MINOR \<and>
   getSuggestedReleaseType ''2.0.0'' (Some [])
     (Some \<lparr>totalCount = 0, versions = []\<rparr>) None = Some PATCH"
proof -
  have np: "semver_prerelease ''2.0.0'' = None"
    by (simp add: semver_defs)
  show ?thesis
    using np
      getSuggestedReleaseType_precedence [OF np, of "Some [ex_fileLog]"
        "Some \<lparr>totalCount = 1,
           versions = [(''master'', [(changeTypeLabel BREAKING_CHANGES, [''Removed x''])])]\<rparr>" None]
      getSuggestedReleaseType_precedence [OF np, of "Some [ex_fileLog]"
        "Some \<lparr>totalCount = 0, versions = []\<rparr>" None]
      getSuggestedReleaseType_precedence [OF np, of "Some []"
        "Some \<lparr>totalCount = 0, versions = []\<rparr>" None]
    by (simp add: ex_fileLog_def)
qed

section \<open>The commit log of a package\<close>

lemma findUnpublishedPackage_logs:
  assumes "findUnpublishedPackage env opts fab = Inr fab'"
  shows "\<exists>ls. logAsync env (Package.path (pkg fab))
               \<lparr>fromCommit = PackageJson.gitHead (packageJson (pkg fab)),
                toCommit = Some ''head''\<rparr> = Inr ls \<and>
              logs (PackageFabric.state fab') =
                Some (if truthy (PackageJson.gitHead (packageJson (pkg fab)))
                      then butlast ls else ls)"
proof -
  obtain cc where cc: "getChangesAsync (changelog fab) None master = Inr cc"
    using assms by (cases "getChangesAsync (changelog fab) None master")
      (simp_all add: findUnpublishedPackage_def)
  obtain ls where ls: "logAsync env (Package.path (pkg fab))
       \<lparr>fromCommit = PackageJson.gitHead (packageJson (pkg fab)), toCommit = Some ''head''\<rparr> = Inr ls"
    using assms cc
    by (cases "logAsync env (Package.path (pkg fab))
       \<lparr>fromCommit = PackageJson.gitHead (packageJson (pkg fab)), toCommit = Some ''head''\<rparr>")
      (simp_all add: findUnpublishedPackage_def)
  obtain fls where fls: "logFilesAsync env (Package.path (pkg fab))
       \<lparr>fromCommit = lastHash ls, toCommit = firstHash ls\<rparr> = Inr fls"
    using assms cc ls
    by (cases "logFilesAsync env (Package.path (pkg fab))
       \<lparr>fromCommit = lastHash ls, toCommit = firstHash ls\<rparr>")
      (simp_all add: findUnpublishedPackage_def)
  have "logs (PackageFabric.state fab') =
      Some (if truthy (PackageJson.gitHead (packageJson (pkg fab))) then butlast ls else ls)"
    using assms cc ls fls
    by (auto simp: findUnpublishedPackage_def Let_def split: if_splits option.splits)
  with ls show ?thesis by blast
qed

text \<open>
  Claim C5, amended. When the package's last-published commit reference is non-empty,
  the commit log kept in the state is the log that \<open>git\<close> returned without its last
  entry, which in a newest-first log is the oldest commit, the one next to the reference
  (and an empty log stays empty); when the reference is empty or absent, the log is kept
  whole.
\<close>

theorem findUnpublishedPackage_drops_last_entry:
  assumes "findUnpublishedPackage env opts fab = Inr fab'"
      and "logAsync env (Package.path (pkg fab))
             \<lparr>fromCommit = PackageJson.gitHead (packageJson (pkg fab)),
              toCommit = Some ''head''\<rparr> = Inr ls"
  shows "logs (PackageFabric.state fab') =
           Some (if truthy (PackageJson.gitHead (packageJson (pkg fab)))
                 then butlast ls else ls)"
  using findUnpublishedPackage_logs [OF assms(1)] assms(2) by auto

theorem findUnpublishedPackage_drops_last_entry_witness:
  "logsOf (findUnpublishedPackage ex_env (Some ex_options) ex_fabricA) = Some [ex_newer] \<and>
   logsOf (findUnpublishedPackage ex_env (Some ex_options)
     (ex_fabricA\<lparr>pkg := (pkg ex_fabricA)\<lparr>packageJson := ex_manifest\<lparr>PackageJson.gitHead := None\<rparr>\<rparr>\<rparr>))
     = Some [ex_newer, ex_older]"
proof -
  let ?fabN = "ex_fabricA\<lparr>pkg := (pkg ex_fabricA)\<lparr>packageJson := ex_manifest\<lparr>PackageJson.gitHead := None\<rparr>\<rparr>\<rparr>"
  let ?r = "findUnpublishedPackage ex_env (Some ex_options) ex_fabricA"
  let ?rN = "findUnpublishedPackage ex_env (Some ex_options) ?fabN"
  have run: "?r = Inr (projr ?r)"
    by code_simp
  have runN: "?rN = Inr (projr ?rN)"
    by code_simp
  have lg: "logAsync ex_env (Package.path (pkg ex_fabricA))
      \<lparr>fromCommit = PackageJson.gitHead (packageJson (pkg ex_fabricA)), toCommit = Some ''head''\<rparr>
      = Inr [ex_newer, ex_older]"
    by code_simp
  have lgN: "logAsync ex_env (Package.path (pkg ?fabN))
      \<lparr>fromCommit = PackageJson.gitHead (packageJson (pkg ?fabN)), toCommit = Some ''head''\<rparr>
      = Inr [ex_newer, ex_older]"
    by code_simp
  have a: "logs (PackageFabric.state (projr ?r)) = Some [ex_newer]"
    using findUnpublishedPackage_drops_last_entry [OF run lg]
    by (simp add: ex_fabricA_def ex_manifest_def)
  have b: "logs (PackageFabric.state (projr ?rN)) = Some [ex_newer, ex_older]"
    using findUnpublishedPackage_drops_last_entry [OF runN lgN]
    by (simp add: ex_fabricA_def ex_manifest_def)
  show ?thesis
    using a b run runN unfolding logsOf_def
    by (metis sum.simps(6))
qed

text \<open>
  The claim as the spec states it fails: of the two commits of \<open>pkg-a\<close> the newer one is
  kept and the older one is dropped, so the result is not the log without its newest
  entry.
\<close>

theorem findUnpublishedPackage_keeps_newest_counterexample:
  "gitLogOutput ex_env ''packages/a'' ''abc..head'' = Some [ex_newer, ex_older] \<and>
   logsOf (findUnpublishedPackage ex_env (Some ex_options) ex_fabricA) = Some [ex_newer] \<and>
   logsOf (findUnpublishedPackage ex_env (Some ex_options) ex_fabricA)
     \<noteq> Some (tl [ex_newer, ex_older])"
  by code_simp

text \<open>
  Claim C6. The source returns \<open>ReleaseType.PRERELEASE\<close> for a current version that is a
  prerelease, and the enum has no such member: for \<open>2.0.0-rc.0\<close> the suggested release
  type is \<open>undefined\<close>, whatever the file log and the changes are, and \<open>semver.inc\<close>
  then returns \<open>null\<close> instead of the next version of the prerelease track. So
  \<open>pkg-a\<close>, were it at that version, would end the phase with neither a release type
  nor a release version.
\<close>

theorem getSuggestedReleaseType_prerelease_undefined:
  "semver_prerelease ''2.0.0-rc.0'' = Some [PStr ''rc'', PNum 0] \<and>
   getSuggestedReleaseType ''2.0.0-rc.0'' fls cc pre = None \<and>
   semver_inc ''2.0.0-rc.0'' (getSuggestedReleaseType ''2.0.0-rc.0'' fls cc pre) None = None \<and>
   releaseOf (findUnpublishedPackage ex_env (Some ex_options)
     (ex_fabricA\<lparr>pkg := (pkg ex_fabricA)\<lparr>packageVersion := ''2.0.0-rc.0''\<rparr>\<rparr>)) = Some (None, None)"
proof -
  have whole: "releaseOf (findUnpublishedPackage ex_env (Some ex_options)
     (ex_fabricA\<lparr>pkg := (pkg ex_fabricA)\<lparr>packageVersion := ''2.0.0-rc.0''\<rparr>\<rparr>)) = Some (None, None)"
    by code_simp
  have p: "semver_prerelease ''2.0.0-rc.0'' = Some [PStr ''rc'', PNum 0]"
    by (simp add: semver_defs)
  then have "getSuggestedReleaseType ''2.0.0-rc.0'' fls cc pre = None"
    by (simp add: getSuggestedReleaseType_def ReleaseType_PRERELEASE_def)
  with p whole show ?thesis
    by (simp add: semver_inc_def split: option.splits)
qed

text \<open>
  Claim C7. For \<open>pkg-b\<close> at version \<open>1.0.0\<close> the decision is patch and the first
  increment gives \<open>1.0.1\<close>. With the prerelease identifier \<open>beta\<close> requested, the source
  then assigns \<open>ReleaseType.PRERELEASE\<close>, which is \<open>undefined\<close>, and increments with it:
  the state ends with no release type and no release version.
\<close>

theorem findUnpublishedPackage_prerelease_identifier_lost:
  "releaseOf (findUnpublishedPackage ex_env (Some ex_options) ex_fabricB) =
     Some (Some PATCH, Some ''1.0.1'') \<and>
   releaseOf (findUnpublishedPackage ex_env (Some (ex_options\<lparr>prerelease := Str ''beta''\<rparr>))
     ex_fabricB) = Some (None, None)"
  by code_simp

section \<open>Failure and resumption of the pipeline\<close>









section \<open>The manifests a run writes\<close>

lemma fold_update_keys:
  "fst ` set (fold (\<lambda>fab m. AList.update (f fab) (g fab) m) xs m0) = fst ` set m0 \<union> f ` set xs"
proof (induction xs arbitrary: m0)
  case Nil
  then show ?case by simp
next
  case (Cons x xs)
  have "fst ` set (fold (\<lambda>fab m. AList.update (f fab) (g fab) m) (x # xs) m0) =
      fst ` set (AList.update (f x) (g x) m0) \<union> f ` set xs"
    using Cons.IH [of "AList.update (f x) (g x) m0"] by simp
  then show ?case
    by (simp add: dom_update Un_assoc Un_commute insert_commute)
qed

text \<open>
  \<open>updateBundledNativeModulesFileAsync\<close> writes no manifest of a package, and the names
  it adds to \<open>bundledNativeModules.json\<close> are those of the selected packages.
\<close>

lemma updateBundledNativeModulesFileAsync_selected_only:
  assumes "updateBundledNativeModulesFileAsync fabrics disk = Inr disk'"
      and "bundledNativeModules disk' = Some m'"
  shows "manifests disk' = manifests disk \<and>
         (\<exists>m. bundledNativeModules disk = Some m \<and>
              fst ` set m' = fst ` set m \<union> set (selectedNames fabrics))"
proof (cases "filter (\<lambda>fab. isSelectedToPublish (PackageFabric.state fab) = Some True) fabrics = []")
  case True
  with assms have "disk' = disk"
    by (simp add: updateBundledNativeModulesFileAsync_def)
  with True assms(2) show ?thesis
    by (simp add: selectedNames_def)
next
  case False
  with assms(1) obtain m where m: "bundledNativeModules disk = Some m"
    by (cases "bundledNativeModules disk") (simp_all add: updateBundledNativeModulesFileAsync_def)
  with False assms have
    "manifests disk' = manifests disk"
    "m' = fold (\<lambda>fab m. AList.update (packageName (pkg fab)) (versionRange fab) m)
            (filter (\<lambda>fab. isSelectedToPublish (PackageFabric.state fab) = Some True) fabrics) m"
    by (auto simp: updateBundledNativeModulesFileAsync_def)
  with m show ?thesis
    by (simp add: fold_update_keys selectedNames_def)
qed

text \<open>
  Claim C4. In the full run over \<open>pkg-a\<close> and \<open>pkg-b\<close> the operator is asked about
  \<open>pkg-a\<close> only and confirms; \<open>bundledNativeModules.json\<close> gains the entry of \<open>pkg-a\<close>
  only. The manifest of \<open>pkg-b\<close>, which is not selected, is nevertheless rewritten with
  the version \<open>1.0.1\<close>: \<open>updateVersionsAsync\<close> goes through every fabric that has a
  release version, selected or not.
\<close>

theorem unselected_manifest_is_rewritten:
  "outcome ex_fullRun = Done \<and>
   selectedNames (fabricsAfter ex_fullRun) = [''pkg-a''] \<and>
   bundledNativeModules (diskAfter ex_fullRun) = Some [(''pkg-a'', ''~2.0.0'')] \<and>
   map_of (manifests ex_disk) ''packages/b/package.json'' =
     Some \<lparr>version = ''1.0.0'', PackageJson.gitHead = Some ''abc''\<rparr> \<and>
   map_of (manifests (diskAfter ex_fullRun)) ''packages/b/package.json'' =
     Some \<lparr>version = ''1.0.1'', PackageJson.gitHead = Some ''abc''\<rparr>"
  by code_simp

section \<open>Counting the entries of a changelog\<close>




















section \<open>Where the collection of changes stops\<close>
















end
